theory Spec2Isabelle
  imports Complex_Main "HOL-Library.Signed_Division"
begin

section \<open>NumClash: the rules engine of the dice game\<close>

text \<open>
  The engine lives in the game screen module: the interfaces \<^verbatim>\<open>Player\<close> and
  \<^verbatim>\<open>GameState\<close>, the type \<^verbatim>\<open>Operation\<close>, and the functions
  \<^verbatim>\<open>generateTargetNumber\<close>, \<^verbatim>\<open>rollDice\<close>, \<^verbatim>\<open>rollTwoDice\<close>,
  \<^verbatim>\<open>initializeGame\<close>, \<^verbatim>\<open>applyOperation\<close>, \<^verbatim>\<open>canDivide\<close>,
  \<^verbatim>\<open>rollDiceForGame\<close>, \<^verbatim>\<open>applyDiceOperation\<close> and \<^verbatim>\<open>applyFinalMove\<close>.

  Conventions of the embedding.
  \<^item> A TypeScript \<^verbatim>\<open>number\<close> that the game uses as a whole number is an \<^typ>\<open>int\<close>.
    A \<^verbatim>\<open>number\<close> is a binary64 value, so the results of \<open>+\<close>, \<open>-\<close> and \<open>*\<close> are
    rounded to 53 significant bits (\<open>roundBinary64\<close>, to nearest, ties to even); the
    remainder and an exact quotient need no rounding. The exponent range is not
    modelled: a result of magnitude \<open>2^1024\<close> or more, which is \<^verbatim>\<open>Infinity\<close> in the
    source, is outside the model.
  \<^item> \<^verbatim>\<open>T | null\<close> is \<^typ>\<open>'a option\<close>, with \<^term>\<open>None\<close> for \<^verbatim>\<open>null\<close>.
  \<^item> \<^verbatim>\<open>throw new Error(msg)\<close> is the left injection of a sum, with one constructor
    of \<open>error\<close> for every throw site.
  \<^item> \<^verbatim>\<open>a % b\<close> is the remainder that takes the sign of the dividend, \<^term>\<open>a smod b\<close>.
  \<^item> Each call of \<^verbatim>\<open>Math.random()\<close> is a parameter: a real \<open>u\<close> with \<open>0 \<le> u < 1\<close>,
    and the arithmetic on it is exact.
\<close>

subsection \<open>Data\<close>

text \<open>\<^verbatim>\<open>type Operation = '+' | '-' | '*' | '/'\<close>\<close>

datatype Operation = Plus | Minus | Times | Divide

text \<open>\<^verbatim>\<open>gamePhase: 'roll' | 'dice-operation' | 'final-operation'\<close>\<close>

datatype GamePhase = Roll | DiceOperation | FinalOperation

text \<open>
  The field \<^verbatim>\<open>id\<close> is \<open>id_player\<close> here. The field \<^verbatim>\<open>color\<close> is read from a
  four-element array by seat index, so it is \<^verbatim>\<open>undefined\<close> (\<^term>\<open>None\<close>) from the
  fifth seat on.
\<close>

record Player =
  id_player :: int
  name :: string
  currentNumber :: int
  color :: "string option"

record GameState =
  players :: "Player list"
  targetNumber :: int
  currentPlayerIndex :: int
  diceResults :: "(int \<times> int) option"
  diceCalculationResult :: "int option"
  winner :: "Player option"
  gameStarted :: bool
  gamePhase :: GamePhase

text \<open>
  The throw sites of the engine, in source order: the two guards of the division case of
  \<^verbatim>\<open>applyOperation\<close>, the guard of \<^verbatim>\<open>applyDiceOperation\<close>, the guard of
  \<^verbatim>\<open>applyFinalMove\<close>. The \<^verbatim>\<open>default\<close> branch of the switch in
  \<^verbatim>\<open>applyOperation\<close> cannot be reached by a value of type \<^verbatim>\<open>Operation\<close>.
  \<open>TypeError\<close> is what the runtime raises when \<^verbatim>\<open>currentPlayer.currentNumber\<close> is
  read while \<^verbatim>\<open>players[currentPlayerIndex]\<close> is \<^verbatim>\<open>undefined\<close>.
\<close>

datatype error =
    DivisionByZero
  | InexactDivision
  | DiceNotRolled
  | DiceOperationMissing
  | TypeError

text \<open>
  The specification sorts the failures into two classes: an illegal operation is a
  division by zero or a division that is not exact; a precondition error is a transition
  called before the step it depends on.
\<close>

definition IllegalOperation :: "error \<Rightarrow> bool" where
  "IllegalOperation e = (e = DivisionByZero \<or> e = InexactDivision)"

definition PreconditionError :: "error \<Rightarrow> bool" where
  "PreconditionError e = (e = DiceNotRolled \<or> e = DiceOperationMissing)"

subsection \<open>The arithmetic operation engine\<close>

text \<open>
  The number of binary digits of a positive whole number, and the rounding of a whole
  number to the nearest one that has at most 53 significant bits, the even one of two
  nearest.
\<close>

function bitLength :: "int \<Rightarrow> nat" where
  "bitLength n = (if n \<le> 0 then 0 else Suc (bitLength (n div 2)))"
  by pat_completeness auto
termination
  by (relation "measure nat") auto

declare bitLength.simps [simp del]

definition roundBinary64 :: "int \<Rightarrow> int" where
  "roundBinary64 x =
     (let m = \<bar>x\<bar>; n = bitLength m in
      if n \<le> 53 then x
      else
        (let ulp = 2 ^ (n - 53);
             q = m div ulp;
             r = m mod ulp;
             half = ulp div 2;
             q' = (if r < half then q
                   else if half < r then q + 1
                   else if even q then q else q + 1)
         in sgn x * (q' * ulp)))"

text \<open>
  \<^verbatim>\<open>number1 + number2\<close>, \<^verbatim>\<open>Math.abs(number1 - number2)\<close> and
  \<^verbatim>\<open>number1 * number2\<close> are binary64 operations: the exact result, rounded. In the
  division case the quotient \<^verbatim>\<open>number1 / number2\<close> is computed only when the
  remainder is zero; the real quotient is then the whole number \<^term>\<open>number1 sdiv number2\<close>
  (lemma \<open>exact_quotient_is_real_quotient\<close>), which has no more significant bits than
  \<open>number1\<close>.
\<close>

fun applyOperation :: "int \<Rightarrow> int \<Rightarrow> Operation \<Rightarrow> error + int" where
  "applyOperation number1 number2 Plus = Inr (roundBinary64 (number1 + number2))"
| "applyOperation number1 number2 Minus = Inr \<bar>roundBinary64 (number1 - number2)\<bar>"
| "applyOperation number1 number2 Times = Inr (roundBinary64 (number1 * number2))"
| "applyOperation number1 number2 Divide =
     (if number2 = 0 then Inl DivisionByZero
      else if number1 smod number2 \<noteq> 0 then Inl InexactDivision
      else Inr (number1 sdiv number2))"

definition canDivide :: "int \<Rightarrow> int \<Rightarrow> bool" where
  "canDivide number1 number2 =
     (if number2 = 0 then False else number1 smod number2 = 0)"

subsection \<open>Constants and random draws\<close>

definition INITIAL_PLAYER_NUMBER :: int where
  "INITIAL_PLAYER_NUMBER = 5"

definition MIN_TARGET :: int where
  "MIN_TARGET = 50"

definition MAX_TARGET :: int where
  "MAX_TARGET = 500"

definition PLAYER_COLORS :: "string list" where
  "PLAYER_COLORS = [''#FF6B6B'', ''#4ECDC4'', ''#45B7D1'', ''#96CEB4'']"

text \<open>
  Reading \<^verbatim>\<open>xs[i]\<close>: the element when \<open>i\<close> is an index of the array,
  \<^verbatim>\<open>undefined\<close> otherwise.
\<close>

definition at_index :: "'a list \<Rightarrow> int \<Rightarrow> 'a option" where
  "at_index xs i = (if 0 \<le> i \<and> i < int (length xs) then Some (xs ! nat i) else None)"

text \<open>\<^verbatim>\<open>Math.floor(Math.random() * (MAX_TARGET - MIN_TARGET + 1) + MIN_TARGET)\<close>\<close>

definition generateTargetNumber :: "real \<Rightarrow> int" where
  "generateTargetNumber u =
     \<lfloor>u * real_of_int (MAX_TARGET - MIN_TARGET + 1) + real_of_int MIN_TARGET\<rfloor>"

text \<open>\<^verbatim>\<open>Math.floor(Math.random() * 6) + 1\<close>\<close>

definition rollDice :: "real \<Rightarrow> int" where
  "rollDice u = \<lfloor>u * 6\<rfloor> + 1"

text \<open>The array literal draws the first die first.\<close>

definition rollTwoDice :: "real \<Rightarrow> real \<Rightarrow> int \<times> int" where
  "rollTwoDice u1 u2 = (rollDice u1, rollDice u2)"

subsection \<open>Session bootstrap\<close>

text \<open>Decimal digits of a whole number, as the template literal prints \<^verbatim>\<open>i + 1\<close>.\<close>

fun decimal :: "nat \<Rightarrow> string" where
  "decimal n =
     (if n < 10 then [char_of (48 + n)]
      else decimal (n div 10) @ [char_of (48 + n mod 10)])"

declare decimal.simps [simp del]

text \<open>
  A string is the list of its UTF-8 bytes. \<^verbatim>\<open>String.prototype.trim\<close> removes, from
  both ends, the white space and line terminator characters of the language: U+0009 to
  U+000D, U+0020, U+00A0, U+1680, U+2000 to U+200A, U+2028, U+2029, U+202F, U+205F,
  U+3000 and U+FEFF, listed here by their encodings.
\<close>

definition whiteSpaceCodes :: "string list" where
  "whiteSpaceCodes =
     [[CHR 0x09], [CHR 0x0A], [CHR 0x0B], [CHR 0x0C], [CHR 0x0D], [CHR 0x20],
      [CHR 0xC2, CHR 0xA0],
      [CHR 0xE1, CHR 0x9A, CHR 0x80],
      [CHR 0xE2, CHR 0x80, CHR 0x80], [CHR 0xE2, CHR 0x80, CHR 0x81],
      [CHR 0xE2, CHR 0x80, CHR 0x82], [CHR 0xE2, CHR 0x80, CHR 0x83],
      [CHR 0xE2, CHR 0x80, CHR 0x84], [CHR 0xE2, CHR 0x80, CHR 0x85],
      [CHR 0xE2, CHR 0x80, CHR 0x86], [CHR 0xE2, CHR 0x80, CHR 0x87],
      [CHR 0xE2, CHR 0x80, CHR 0x88], [CHR 0xE2, CHR 0x80, CHR 0x89],
      [CHR 0xE2, CHR 0x80, CHR 0x8A],
      [CHR 0xE2, CHR 0x80, CHR 0xA8], [CHR 0xE2, CHR 0x80, CHR 0xA9],
      [CHR 0xE2, CHR 0x80, CHR 0xAF],
      [CHR 0xE2, CHR 0x81, CHR 0x9F],
      [CHR 0xE3, CHR 0x80, CHR 0x80],
      [CHR 0xEF, CHR 0xBB, CHR 0xBF]]"

text \<open>Removing from the front of a string every leading occurrence of one of the codes.\<close>

function stripLeading :: "string list \<Rightarrow> string \<Rightarrow> string" where
  "stripLeading codes s =
     (case find (\<lambda>w. w \<noteq> [] \<and> take (length w) s = w) codes of
        None \<Rightarrow> s
      | Some w \<Rightarrow> stripLeading codes (drop (length w) s))"
  by pat_completeness auto
termination
proof (relation "measure (\<lambda>(codes, s). length s)")
  show "wf (measure (\<lambda>(codes, s). length s))" by simp
next
  fix codes :: "string list" and s w :: string
  assume "find (\<lambda>w. w \<noteq> [] \<and> take (length w) s = w) codes = Some w"
  then have "w \<noteq> []" and t: "take (length w) s = w"
    by (auto simp: find_Some_iff)
  have "length w \<le> length s"
  proof (rule ccontr)
    assume "\<not> length w \<le> length s"
    then have "length (take (length w) s) < length w" by simp
    with t show False by simp
  qed
  with \<open>w \<noteq> []\<close> have "length (drop (length w) s) < length s"
    by (cases w) simp_all
  then show "((codes, drop (length w) s), (codes, s)) \<in> measure (\<lambda>(codes, s). length s)"
    by simp
qed

declare stripLeading.simps [simp del]

definition trim :: "string \<Rightarrow> string" where
  "trim s = rev (stripLeading (map rev whiteSpaceCodes) (rev (stripLeading whiteSpaceCodes s)))"

text \<open>
  \<^verbatim>\<open>customNames?.[i]?.trim() || `Oyuncu ${i + 1}`\<close>: the placeholder is used when no
  names were given, when the list has no entry \<open>i\<close>, and when the trimmed entry is empty.
\<close>

definition playerName :: "string list option \<Rightarrow> nat \<Rightarrow> string" where
  "playerName customNames i =
     (let placeholder = ''Oyuncu '' @ decimal (i + 1) in
      case customNames of
        None \<Rightarrow> placeholder
      | Some names \<Rightarrow>
          (case at_index names (int i) of
             None \<Rightarrow> placeholder
           | Some n \<Rightarrow> if trim n = [] then placeholder else trim n))"

definition newPlayer :: "string list option \<Rightarrow> nat \<Rightarrow> Player" where
  "newPlayer customNames i =
     \<lparr> id_player = int i + 1,
       name = playerName customNames i,
       currentNumber = INITIAL_PLAYER_NUMBER,
       color = at_index PLAYER_COLORS (int i) \<rparr>"

text \<open>\<^verbatim>\<open>for (let i = 0; i < playerCount; i++) players.push({...})\<close>\<close>

function pushPlayers :: "int \<Rightarrow> string list option \<Rightarrow> nat \<Rightarrow> Player list \<Rightarrow> Player list" where
  "pushPlayers playerCount customNames i ps =
     (if int i < playerCount
      then pushPlayers playerCount customNames (i + 1) (ps @ [newPlayer customNames i])
      else ps)"
  by pat_completeness auto
termination
  by (relation "measure (\<lambda>(playerCount, customNames, i, ps). nat (playerCount - int i))") auto

declare pushPlayers.simps [simp del]

text \<open>
  The first draw \<open>uTarget\<close> gives the target, the second draw \<open>uStart\<close> the starting
  seat \<^verbatim>\<open>Math.floor(Math.random() * playerCount)\<close>. The function has no check of
  \<open>playerCount\<close> and no throw statement.
\<close>

definition initializeGame :: "int \<Rightarrow> string list option \<Rightarrow> real \<Rightarrow> real \<Rightarrow> GameState" where
  "initializeGame playerCount customNames uTarget uStart =
     (let targetNumber = generateTargetNumber uTarget;
          startingPlayerIndex = \<lfloor>uStart * real_of_int playerCount\<rfloor>;
          players = pushPlayers playerCount customNames 0 []
      in \<lparr> players = players,
           targetNumber = targetNumber,
           currentPlayerIndex = startingPlayerIndex,
           diceResults = None,
           diceCalculationResult = None,
           winner = None,
           gameStarted = True,
           gamePhase = Roll \<rparr>)"

subsection \<open>The game state machine\<close>

definition rollDiceForGame :: "GameState \<Rightarrow> real \<Rightarrow> real \<Rightarrow> GameState" where
  "rollDiceForGame gameState u1 u2 =
     gameState \<lparr> diceResults := Some (rollTwoDice u1 u2), gamePhase := DiceOperation \<rparr>"

text \<open>
  \<^verbatim>\<open>if (!gameState.diceResults)\<close>: the field is \<^verbatim>\<open>null\<close> or an array, and every array
  is truthy.
\<close>

definition applyDiceOperation :: "GameState \<Rightarrow> Operation \<Rightarrow> error + GameState" where
  "applyDiceOperation gameState operation =
     (case diceResults gameState of
        None \<Rightarrow> Inl DiceNotRolled
      | Some (dice1, dice2) \<Rightarrow>
          (case applyOperation dice1 dice2 operation of
             Inl e \<Rightarrow> Inl e
           | Inr result \<Rightarrow>
               Inr (gameState \<lparr> diceCalculationResult := Some result,
                                 gamePhase := FinalOperation \<rparr>)))"

text \<open>
  \<^verbatim>\<open>if (!gameState.diceCalculationResult)\<close>: the field is \<^verbatim>\<open>null\<close> or a number, and
  the negation of a number is true exactly for zero. So the guard throws for \<^verbatim>\<open>null\<close>
  and for \<open>0\<close>.
\<close>

definition applyFinalMove :: "GameState \<Rightarrow> Operation \<Rightarrow> error + GameState" where
  "applyFinalMove gameState operation =
     (case diceCalculationResult gameState of
        None \<Rightarrow> Inl DiceOperationMissing
      | Some d \<Rightarrow>
          if d = 0 then Inl DiceOperationMissing
          else
            (case at_index (players gameState) (currentPlayerIndex gameState) of
               None \<Rightarrow> Inl TypeError
             | Some currentPlayer \<Rightarrow>
                 (case applyOperation (currentNumber currentPlayer) d operation of
                    Inl e \<Rightarrow> Inl e
                  | Inr newNumber \<Rightarrow>
                      (let updatedPlayers =
                             map (\<lambda>player.
                                    if id_player player = id_player currentPlayer
                                    then player \<lparr> currentNumber := newNumber \<rparr>
                                    else player)
                                 (players gameState);
                           winner =
                             (if newNumber = targetNumber gameState
                              then Some currentPlayer else None);
                           nextPlayerIndex =
                             (if winner \<noteq> None
                              then currentPlayerIndex gameState
                              else (currentPlayerIndex gameState + 1)
                                     smod int (length (players gameState)))
                       in Inr (gameState \<lparr> players := updatedPlayers,
                                            currentPlayerIndex := nextPlayerIndex,
                                            diceResults := None,
                                            diceCalculationResult := None,
                                            winner := winner,
                                            gamePhase := Roll \<rparr>)))))"

definition getCurrentPlayer :: "GameState \<Rightarrow> Player option" where
  "getCurrentPlayer gameState = at_index (players gameState) (currentPlayerIndex gameState)"

subsection \<open>The callers of the engine\<close>

text \<open>
  The screen component keeps \<^verbatim>\<open>gameState: GameState | null\<close> and replaces it with
  \<^verbatim>\<open>setGameState\<close>. The two handlers below are modelled by the value of that
  variable after the handler has run: every early \<^verbatim>\<open>return\<close>, the \<^verbatim>\<open>catch\<close>
  branch and an exception that leaves the handler keep the old value, and only the
  \<^verbatim>\<open>try\<close> branch stores the new state.
\<close>

definition selectDiceOperation :: "GameState option \<Rightarrow> Operation \<Rightarrow> GameState option" where
  "selectDiceOperation gameState operation =
     (case gameState of
        None \<Rightarrow> gameState
      | Some gs \<Rightarrow>
          (case diceResults gs of
             None \<Rightarrow> gameState
           | Some (dice1, dice2) \<Rightarrow>
               if gamePhase gs \<noteq> DiceOperation then gameState
               else if operation = Divide \<and> dice2 = 0 then gameState
               else if operation = Divide \<and> dice1 smod dice2 \<noteq> 0 then gameState
               else
                 (case applyDiceOperation gs operation of
                    Inr newGameState \<Rightarrow> Some newGameState
                  | Inl e \<Rightarrow> gameState)))"

definition selectFinalOperation :: "GameState option \<Rightarrow> Operation \<Rightarrow> GameState option" where
  "selectFinalOperation gameState operation =
     (case gameState of
        None \<Rightarrow> gameState
      | Some gs \<Rightarrow>
          (case diceCalculationResult gs of
             None \<Rightarrow> gameState
           | Some d \<Rightarrow>
               if gamePhase gs \<noteq> FinalOperation then gameState
               else if operation = Divide
                       \<and> (case getCurrentPlayer gs of
                             None \<Rightarrow> True
                           | Some currentPlayer \<Rightarrow> \<not> canDivide (currentNumber currentPlayer) d)
               then gameState
               else
                 (case applyFinalMove gs operation of
                    Inr newGameState \<Rightarrow> Some newGameState
                  | Inl e \<Rightarrow> gameState)))"

subsection \<open>The engine on a store of objects\<close>

type_synonym ref = nat

text \<open>
  The fields of a game state object. \<^verbatim>\<open>players\<close>, \<^verbatim>\<open>diceResults\<close> and \<^verbatim>\<open>winner\<close>
  hold references (to the array of players, to the array of the two dice, to a player
  object) or \<^verbatim>\<open>null\<close>; the other fields hold numbers, a boolean and the phase.
\<close>

record GameStateFields =
  playersRef :: ref
  targetNumberField :: int
  currentPlayerIndexField :: int
  diceResultsRef :: "ref option"
  diceCalculationResultField :: "int option"
  winnerRef :: "ref option"
  gameStartedField :: bool
  gamePhaseField :: GamePhase

text \<open>
  The objects of the engine: a player, the array of references to the players, the array
  of the two dice, a game state.
\<close>

datatype object =
    PlayerObject Player
  | PlayersArray "ref list"
  | DiceArray int int
  | GameStateObject GameStateFields

text \<open>
  The store is the list of the objects created so far and a reference is a position in
  it. Creating an object appends it; the engine has no statement that assigns to a field
  or an element of an object that exists. A reference that names no object of the kind
  read is \<^verbatim>\<open>undefined\<close>, and reading a property of it raises \<open>TypeError\<close>.
\<close>

type_synonym store = "object list"

definition deref :: "store \<Rightarrow> ref \<Rightarrow> object option" where
  "deref h r = (if r < length h then Some (h ! r) else None)"

definition allocate :: "store \<Rightarrow> object \<Rightarrow> ref \<times> store" where
  "allocate h ob = (length h, h @ [ob])"

text \<open>
  \<^verbatim>\<open>gameState.players.map(player => player.id === currentPlayer.id
  ? { ...player, currentNumber: newNumber } : player)\<close>: a new object for every player
  with the identifier of the current player, the old reference for every other player.
\<close>

fun mapPlayers_store :: "store \<Rightarrow> ref list \<Rightarrow> int \<Rightarrow> int \<Rightarrow> (error + ref list) \<times> store" where
  "mapPlayers_store h [] currentId newNumber = (Inr [], h)"
| "mapPlayers_store h (r # rs) currentId newNumber =
     (case deref h r of
        Some (PlayerObject player) \<Rightarrow>
          (case (if id_player player = currentId
                 then allocate h (PlayerObject (player \<lparr> currentNumber := newNumber \<rparr>))
                 else (r, h)) of
             (r', h1) \<Rightarrow>
               (case mapPlayers_store h1 rs currentId newNumber of
                  (Inl e, h2) \<Rightarrow> (Inl e, h2)
                | (Inr rs', h2) \<Rightarrow> (Inr (r' # rs'), h2)))
      | _ \<Rightarrow> (Inl TypeError, h))"

text \<open>
  \<^verbatim>\<open>applyDiceOperation\<close> on the store: the two guards and the arithmetic read only;
  the \<^verbatim>\<open>return\<close> creates the new state object from the fields of the old one.
\<close>

definition applyDiceOperation_store ::
  "store \<Rightarrow> ref \<Rightarrow> Operation \<Rightarrow> (error + ref) \<times> store" where
  "applyDiceOperation_store h gameState operation =
     (case deref h gameState of
        Some (GameStateObject fs) \<Rightarrow>
          (case diceResultsRef fs of
             None \<Rightarrow> (Inl DiceNotRolled, h)
           | Some d \<Rightarrow>
               (case deref h d of
                  Some (DiceArray dice1 dice2) \<Rightarrow>
                    (case applyOperation dice1 dice2 operation of
                       Inl e \<Rightarrow> (Inl e, h)
                     | Inr result \<Rightarrow>
                         (case allocate h
                                 (GameStateObject
                                    (fs \<lparr> diceCalculationResultField := Some result,
                                              gamePhaseField := FinalOperation \<rparr>)) of
                            (r, h') \<Rightarrow> (Inr r, h')))
                | _ \<Rightarrow> (Inl TypeError, h)))
      | _ \<Rightarrow> (Inl TypeError, h))"

text \<open>
  \<^verbatim>\<open>applyFinalMove\<close> on the store: the guard, the read of the current player and the
  arithmetic read only; then come the new player objects, the new array and the new
  state object. The winner is the reference to the player object read before the move.
\<close>

definition applyFinalMove_store ::
  "store \<Rightarrow> ref \<Rightarrow> Operation \<Rightarrow> (error + ref) \<times> store" where
  "applyFinalMove_store h gameState operation =
     (case deref h gameState of
        Some (GameStateObject fs) \<Rightarrow>
          (case diceCalculationResultField fs of
             None \<Rightarrow> (Inl DiceOperationMissing, h)
           | Some d \<Rightarrow>
               if d = 0 then (Inl DiceOperationMissing, h)
               else
                 (case deref h (playersRef fs) of
                    Some (PlayersArray refs) \<Rightarrow>
                      (case at_index refs (currentPlayerIndexField fs) of
                         None \<Rightarrow> (Inl TypeError, h)
                       | Some currentPlayerRef \<Rightarrow>
                           (case deref h currentPlayerRef of
                              Some (PlayerObject currentPlayer) \<Rightarrow>
                                (case applyOperation (currentNumber currentPlayer) d operation of
                                   Inl e \<Rightarrow> (Inl e, h)
                                 | Inr newNumber \<Rightarrow>
                                     (case mapPlayers_store h refs (id_player currentPlayer)
                                             newNumber of
                                        (Inl e, h1) \<Rightarrow> (Inl e, h1)
                                      | (Inr updatedRefs, h1) \<Rightarrow>
                                          (case allocate h1 (PlayersArray updatedRefs) of
                                             (updatedPlayers, h2) \<Rightarrow>
                                               (let winner =
                                                      (if newNumber = targetNumberField fs
                                                       then Some currentPlayerRef else None);
                                                    nextPlayerIndex =
                                                      (if winner \<noteq> None
                                                       then currentPlayerIndexField fs
                                                       else (currentPlayerIndexField fs + 1)
                                                              smod int (length refs))
                                                in case allocate h2
                                                          (GameStateObject
                                                             (fs
                                                                \<lparr> playersRef := updatedPlayers,
                                                                  currentPlayerIndexField :=
                                                                    nextPlayerIndex,
                                                                  diceResultsRef := None,
                                                                  diceCalculationResultField := None,
                                                                  winnerRef := winner,
                                                                  gamePhaseField := Roll \<rparr>)) of
                                                     (r, h3) \<Rightarrow> (Inr r, h3)))))
                            | _ \<Rightarrow> (Inl TypeError, h)))
                  | _ \<Rightarrow> (Inl TypeError, h)))
      | _ \<Rightarrow> (Inl TypeError, h))"

text \<open>
  The game state that a reference denotes in a store: the value of every field, with the
  references followed. It is defined when every reference names an object of its kind.
\<close>

fun readPlayers :: "store \<Rightarrow> ref list \<Rightarrow> Player list option" where
  "readPlayers h [] = Some []"
| "readPlayers h (r # rs) =
     (case deref h r of
        Some (PlayerObject player) \<Rightarrow>
          (case readPlayers h rs of
             Some ps \<Rightarrow> Some (player # ps)
           | None \<Rightarrow> None)
      | _ \<Rightarrow> None)"

definition readDice :: "store \<Rightarrow> ref option \<Rightarrow> (int \<times> int) option option" where
  "readDice h d =
     (case d of
        None \<Rightarrow> Some None
      | Some r \<Rightarrow>
          (case deref h r of
             Some (DiceArray dice1 dice2) \<Rightarrow> Some (Some (dice1, dice2))
           | _ \<Rightarrow> None))"

definition readWinner :: "store \<Rightarrow> ref option \<Rightarrow> Player option option" where
  "readWinner h w =
     (case w of
        None \<Rightarrow> Some None
      | Some r \<Rightarrow>
          (case deref h r of
             Some (PlayerObject player) \<Rightarrow> Some (Some player)
           | _ \<Rightarrow> None))"

definition readState :: "store \<Rightarrow> ref \<Rightarrow> GameState option" where
  "readState h gameState =
     (case deref h gameState of
        Some (GameStateObject fs) \<Rightarrow>
          (case deref h (playersRef fs) of
             Some (PlayersArray refs) \<Rightarrow>
               (case (readPlayers h refs, readDice h (diceResultsRef fs),
                      readWinner h (winnerRef fs)) of
                  (Some ps, Some dice, Some w) \<Rightarrow>
                    Some \<lparr> players = ps,
                           targetNumber = targetNumberField fs,
                           currentPlayerIndex = currentPlayerIndexField fs,
                           diceResults = dice,
                           diceCalculationResult = diceCalculationResultField fs,
                           winner = w,
                           gameStarted = gameStartedField fs,
                           gamePhase = gamePhaseField fs \<rparr>
                | _ \<Rightarrow> None)
           | _ \<Rightarrow> None)
      | _ \<Rightarrow> None)"

text \<open>
  A store that holds the two players, their array, the dice 3 and 2 and, at reference 4,
  a game state in the phase \<open>final-operation\<close> with the dice result 2.
\<close>

definition exampleStore :: store where
  "exampleStore =
     [PlayerObject \<lparr> id_player = 1, name = ''Oyuncu 1'', currentNumber = 25,
                      color = Some ''#FF6B6B'' \<rparr>,
      PlayerObject \<lparr> id_player = 2, name = ''Oyuncu 2'', currentNumber = 5,
                      color = Some ''#4ECDC4'' \<rparr>,
      PlayersArray [0, 1],
      DiceArray 3 2,
      GameStateObject
        \<lparr> playersRef = 2,
          targetNumberField = 50,
          currentPlayerIndexField = 0,
          diceResultsRef = Some 3,
          diceCalculationResultField = Some 2,
          winnerRef = None,
          gameStartedField = True,
          gamePhaseField = FinalOperation \<rparr>]"

subsection \<open>Well-formed states\<close>

text \<open>
  The data model of the specification: the index of the current player names a seat, and
  the identifiers of the players are distinct.
\<close>

definition wellFormed :: "GameState \<Rightarrow> bool" where
  "wellFormed gameState =
     (0 \<le> currentPlayerIndex gameState
      \<and> currentPlayerIndex gameState < int (length (players gameState))
      \<and> distinct (map id_player (players gameState)))"

subsection \<open>Sessions\<close>

text \<open>
  A session is the sequence of engine calls that the screen makes on the state it holds.
  A call that throws stores nothing, so the held state stays; a call that returns
  replaces it.
\<close>

datatype Call =
    CallRollDice real real
  | CallDiceOperation Operation
  | CallFinalMove Operation

fun call :: "GameState \<Rightarrow> Call \<Rightarrow> error + GameState" where
  "call gameState (CallRollDice u1 u2) = Inr (rollDiceForGame gameState u1 u2)"
| "call gameState (CallDiceOperation operation) = applyDiceOperation gameState operation"
| "call gameState (CallFinalMove operation) = applyFinalMove gameState operation"

fun session :: "GameState \<Rightarrow> Call list \<Rightarrow> GameState" where
  "session gameState [] = gameState"
| "session gameState (c # cs) =
     (case call gameState c of
        Inl e \<Rightarrow> session gameState cs
      | Inr newGameState \<Rightarrow> session newGameState cs)"

subsection \<open>Example states\<close>

text \<open>
  A two-seat game with the given target, the first seat on the given number and the second
  seat on the starting number; the first seat is to move.
\<close>

definition exampleState ::
  "int \<Rightarrow> int \<Rightarrow> (int \<times> int) option \<Rightarrow> int option \<Rightarrow> GamePhase \<Rightarrow> GameState" where
  "exampleState target number1 dice result phase =
     \<lparr> players =
         [\<lparr> id_player = 1, name = ''Oyuncu 1'', currentNumber = number1,
            color = Some ''#FF6B6B'' \<rparr>,
          \<lparr> id_player = 2, name = ''Oyuncu 2'', currentNumber = 5,
            color = Some ''#4ECDC4'' \<rparr>],
       targetNumber = target,
       currentPlayerIndex = 0,
       diceResults = dice,
       diceCalculationResult = result,
       winner = None,
       gameStarted = True,
       gamePhase = phase \<rparr>"

section \<open>Properties\<close>

subsection \<open>Remainder and quotient\<close>

lemma smod_zero_iff_dvd: "(a smod b = 0) = (b dvd a)" for a b :: int
proof (cases "b = 0")
  case True
  then show ?thesis by simp
next
  case False
  have "(a smod b = 0) = (\<bar>a\<bar> mod \<bar>b\<bar> = 0)"
    by (cases "a = 0") (simp_all add: smod_int_alt_def sgn_if)
  also have "\<dots> = (\<bar>b\<bar> dvd \<bar>a\<bar>)"
    by (simp add: dvd_eq_mod_eq_0)
  also have "\<dots> = (b dvd a)"
    by simp
  finally show ?thesis .
qed

lemma smod_zero_iff_mod_zero: "(a smod b = 0) = (a mod b = 0)" for a b :: int
  by (simp add: smod_zero_iff_dvd dvd_eq_mod_eq_0)

lemma exact_sdiv_eq_div: "a smod b = 0 \<Longrightarrow> a sdiv b = a div b" for a b :: int
  by (simp add: smod_zero_iff_dvd signed_divide_int_eq_divide_int)

lemma exact_sdiv_mult: "a smod b = 0 \<Longrightarrow> a sdiv b * b = a" for a b :: int
  using sdiv_mult_smod_eq [of a b] by simp

lemma exact_quotient_is_real_quotient:
  "b \<noteq> 0 \<Longrightarrow> a smod b = 0 \<Longrightarrow> real_of_int (a sdiv b) = real_of_int a / real_of_int b"
  for a b :: int
proof -
  assume b: "b \<noteq> 0" and r: "a smod b = 0"
  have "real_of_int (a sdiv b) * real_of_int b = real_of_int a"
    using exact_sdiv_mult [OF r] by (metis of_int_mult)
  with b show ?thesis
    by (simp add: field_simps)
qed

lemma smod_next_index:
  "0 \<le> i \<Longrightarrow> i < n \<Longrightarrow> (i + 1) smod n = (i + 1) mod n" for i n :: int
  by (simp add: smod_int_alt_def sgn_if abs_if)

subsection \<open>Rounding to binary64\<close>

lemma bitLength_le: "m < 2 ^ k \<Longrightarrow> bitLength m \<le> k"
proof (induction k arbitrary: m)
  case 0
  then show ?case by (subst bitLength.simps) simp
next
  case (Suc k)
  show ?case
  proof (cases "m \<le> 0")
    case True
    then show ?thesis by (subst bitLength.simps) simp
  next
    case False
    from Suc.prems have "m div 2 < 2 ^ k" by simp
    then have "bitLength (m div 2) \<le> k" by (rule Suc.IH)
    with False show ?thesis by (subst bitLength.simps) simp
  qed
qed

lemma roundBinary64_bound_pos: "roundBinary64 9007199254740992 = 9007199254740992"
  by code_simp

lemma roundBinary64_bound_neg: "roundBinary64 (- 9007199254740992) = - 9007199254740992"
  by code_simp

lemma roundBinary64_exact:
  assumes "\<bar>x\<bar> \<le> 2 ^ 53"
  shows "roundBinary64 x = x"
proof (cases "\<bar>x\<bar> = 2 ^ 53")
  case True
  then have "\<bar>x\<bar> = 9007199254740992" by simp
  then have "x = 9007199254740992 \<or> x = - 9007199254740992" by linarith
  then show ?thesis
    using roundBinary64_bound_pos roundBinary64_bound_neg by auto
next
  case False
  with assms have "\<bar>x\<bar> < 2 ^ 53" by simp
  then have "bitLength \<bar>x\<bar> \<le> 53" by (rule bitLength_le)
  then show ?thesis by (simp add: roundBinary64_def Let_def)
qed

lemma roundBinary64_sign: "0 \<le> x \<Longrightarrow> 0 \<le> roundBinary64 x"
  by (simp add: roundBinary64_def Let_def sgn_if pos_imp_zdiv_nonneg_iff)

subsection \<open>Addition, multiplication and absolute difference\<close>




subsection \<open>Exact division\<close>

lemma applyOperation_Divide_eq:
  "applyOperation a b Divide =
     (if b = 0 then Inl DivisionByZero
      else if a mod b \<noteq> 0 then Inl InexactDivision
      else Inr (a div b))"
  by (simp add: smod_zero_iff_mod_zero exact_sdiv_eq_div)

lemma applyOperation_error_illegal:
  "applyOperation a b op = Inl e \<Longrightarrow> IllegalOperation e"
  by (cases op) (auto simp: IllegalOperation_def split: if_splits)

text \<open>
  Claim C5. For all integers \<open>a\<close> and \<open>b\<close>, the operation \<open>/\<close> fails with an illegal
  operation when \<open>b = 0\<close> (division by zero) or when \<open>b\<close> does not divide \<open>a\<close>, and
  otherwise returns the exact quotient. \<open>canDivide a b\<close> is true exactly when \<open>b \<noteq> 0\<close>
  and \<open>a mod b = 0\<close>, which is exactly when the division succeeds.
\<close>

theorem applyOperation_divide_canDivide:
  "applyOperation a b Divide =
     (if b = 0 then Inl DivisionByZero
      else if a mod b \<noteq> 0 then Inl InexactDivision
      else Inr (a div b))
   \<and> (case applyOperation a b Divide of
         Inl e \<Rightarrow> IllegalOperation e
       | Inr q \<Rightarrow> b \<noteq> 0 \<and> q * b = a)
   \<and> canDivide a b = (b \<noteq> 0 \<and> a mod b = 0)
   \<and> canDivide a b = (\<exists>q. applyOperation a b Divide = Inr q)"
proof (intro conjI)
  show "applyOperation a b Divide =
     (if b = 0 then Inl DivisionByZero
      else if a mod b \<noteq> 0 then Inl InexactDivision
      else Inr (a div b))"
    by (rule applyOperation_Divide_eq)
  show "case applyOperation a b Divide of
         Inl e \<Rightarrow> IllegalOperation e
       | Inr q \<Rightarrow> b \<noteq> 0 \<and> q * b = a"
    by (simp add: IllegalOperation_def exact_sdiv_mult)
  show "canDivide a b = (b \<noteq> 0 \<and> a mod b = 0)"
    by (simp add: canDivide_def smod_zero_iff_mod_zero)
  show "canDivide a b = (\<exists>q. applyOperation a b Divide = Inr q)"
    by (simp add: canDivide_def)
qed

subsection \<open>Random draws\<close>

lemma rollDice_range: "0 \<le> u \<Longrightarrow> u < 1 \<Longrightarrow> 1 \<le> rollDice u \<and> rollDice u \<le> 6"
proof -
  assume lo: "0 \<le> u" and hi: "u < 1"
  have "0 \<le> u * 6" using lo by simp
  then have a: "0 \<le> \<lfloor>u * 6\<rfloor>" by simp
  have "u * 6 < 6" using hi by simp
  then have b: "\<lfloor>u * 6\<rfloor> < 6" by (simp add: floor_less_iff)
  from a b show ?thesis by (simp add: rollDice_def)
qed

lemma generateTargetNumber_range:
  "0 \<le> u \<Longrightarrow> u < 1 \<Longrightarrow> 50 \<le> generateTargetNumber u \<and> generateTargetNumber u \<le> 500"
proof -
  assume lo: "0 \<le> u" and hi: "u < 1"
  have "50 \<le> u * 451 + 50" using lo by simp
  then have a: "50 \<le> \<lfloor>u * 451 + 50\<rfloor>" by (simp add: le_floor_iff)
  have "u * 451 + 50 < 501" using hi by simp
  then have b: "\<lfloor>u * 451 + 50\<rfloor> < 501" by (simp add: floor_less_iff)
  from a b show ?thesis
    by (simp add: generateTargetNumber_def MIN_TARGET_def MAX_TARGET_def)
qed

subsection \<open>Rolling the dice\<close>

text \<open>
  Claim C7. For every state and every outcome of the two draws, \<open>rollDiceForGame\<close>
  returns a state whose \<open>diceResults\<close> is an ordered pair of whole numbers, each from 1
  to 6, and whose phase is \<open>dice-operation\<close>; the players, the index of the current
  player, the target and the winner are those of the state given.
\<close>

theorem rollDiceForGame_contract:
  assumes "0 \<le> u1" and "u1 < 1" and "0 \<le> u2" and "u2 < 1"
  shows "diceResults (rollDiceForGame st u1 u2) = Some (rollDice u1, rollDice u2)
         \<and> 1 \<le> rollDice u1 \<and> rollDice u1 \<le> 6
         \<and> 1 \<le> rollDice u2 \<and> rollDice u2 \<le> 6
         \<and> gamePhase (rollDiceForGame st u1 u2) = DiceOperation
         \<and> players (rollDiceForGame st u1 u2) = players st
         \<and> currentPlayerIndex (rollDiceForGame st u1 u2) = currentPlayerIndex st
         \<and> targetNumber (rollDiceForGame st u1 u2) = targetNumber st
         \<and> winner (rollDiceForGame st u1 u2) = winner st"
  using rollDice_range [OF assms(1,2)] rollDice_range [OF assms(3,4)]
  by (simp add: rollDiceForGame_def rollTwoDice_def)

theorem rollDiceForGame_contract_witness:
  "(0::real) \<le> 2 / 5 \<and> (2::real) / 5 < 1 \<and> (0::real) \<le> 5 / 6 \<and> (5::real) / 6 < 1
   \<and> rollDice (2 / 5) = 3 \<and> rollDice (5 / 6) = 6
   \<and> diceResults (rollDiceForGame (exampleState 50 25 None None Roll) (2 / 5) (5 / 6))
       = Some (3, 6)
   \<and> gamePhase (rollDiceForGame (exampleState 50 25 None None Roll) (2 / 5) (5 / 6))
       = DiceOperation"
proof -
  have h: "(0::real) \<le> 2 / 5" "(2::real) / 5 < 1" "(0::real) \<le> 5 / 6" "(5::real) / 6 < 1"
    by simp_all
  have d: "rollDice (2 / 5) = 3" "rollDice (5 / 6) = 6"
    by (simp_all add: rollDice_def)
  show ?thesis
    using h d rollDiceForGame_contract [OF h, of "exampleState 50 25 None None Roll"]
    by simp
qed

subsection \<open>The dice operation\<close>

text \<open>
  Claim C6. \<open>applyDiceOperation\<close> fails with the precondition error of its guard (no dice
  rolled yet) when \<open>diceResults\<close> is absent. When \<open>diceResults\<close> is the pair
  \<open>(dice1, dice2)\<close> it computes \<open>applyOperation dice1 dice2 op\<close>: a failure of that call,
  which is an illegal operation, is the failure of the transition, unchanged; a result is
  stored in \<open>diceCalculationResult\<close> and the phase becomes \<open>final-operation\<close>, with every
  other field kept.
\<close>

theorem applyDiceOperation_contract:
  "(diceResults st = None \<longrightarrow>
      applyDiceOperation st op = Inl DiceNotRolled \<and> PreconditionError DiceNotRolled)
   \<and> (\<forall>dice1 dice2 e.
        diceResults st = Some (dice1, dice2) \<and> applyOperation dice1 dice2 op = Inl e \<longrightarrow>
          applyDiceOperation st op = Inl e \<and> IllegalOperation e)
   \<and> (\<forall>dice1 dice2 r.
        diceResults st = Some (dice1, dice2) \<and> applyOperation dice1 dice2 op = Inr r \<longrightarrow>
          applyDiceOperation st op =
            Inr (st \<lparr> diceCalculationResult := Some r, gamePhase := FinalOperation \<rparr>))"
  by (auto simp: applyDiceOperation_def PreconditionError_def
           dest: applyOperation_error_illegal)

theorem applyDiceOperation_contract_witness:
  "diceResults (exampleState 50 25 None None Roll) = None
   \<and> applyDiceOperation (exampleState 50 25 None None Roll) Times = Inl DiceNotRolled
   \<and> diceResults (exampleState 50 25 (Some (3, 2)) None DiceOperation) = Some (3, 2)
   \<and> applyOperation 3 2 Divide = Inl InexactDivision
   \<and> applyDiceOperation (exampleState 50 25 (Some (3, 2)) None DiceOperation) Divide
       = Inl InexactDivision
   \<and> diceResults (exampleState 50 25 (Some (4, 4)) None DiceOperation) = Some (4, 4)
   \<and> applyOperation 4 4 Times = Inr 16
   \<and> applyDiceOperation (exampleState 50 25 (Some (4, 4)) None DiceOperation) Times
       = Inr (exampleState 50 25 (Some (4, 4)) (Some 16) FinalOperation)"
proof -
  have a: "diceResults (exampleState 50 25 None None Roll) = None"
    by (simp add: exampleState_def)
  have b: "diceResults (exampleState 50 25 (Some (3, 2)) None DiceOperation) = Some (3, 2)"
    "applyOperation 3 2 Divide = Inl InexactDivision"
    by (simp_all add: exampleState_def smod_int_alt_def)
  have c: "diceResults (exampleState 50 25 (Some (4, 4)) None DiceOperation) = Some (4, 4)"
    "applyOperation 4 4 Times = Inr 16"
    by (simp_all add: exampleState_def roundBinary64_exact)
  show ?thesis
    using a b c
      applyDiceOperation_contract [of "exampleState 50 25 None None Roll" Times]
      applyDiceOperation_contract
        [of "exampleState 50 25 (Some (3, 2)) None DiceOperation" Divide]
      applyDiceOperation_contract
        [of "exampleState 50 25 (Some (4, 4)) None DiceOperation" Times]
    by (simp add: exampleState_def)
qed

subsection \<open>The target is fixed\<close>

lemma applyDiceOperation_targetNumber:
  "applyDiceOperation st op = Inr st' \<Longrightarrow> targetNumber st' = targetNumber st"
  by (auto simp: applyDiceOperation_def split: option.splits sum.splits prod.splits)

lemma applyFinalMove_targetNumber:
  "applyFinalMove st op = Inr st' \<Longrightarrow> targetNumber st' = targetNumber st"
  by (auto simp: applyFinalMove_def Let_def split: option.splits sum.splits if_splits)

lemma call_targetNumber: "call st c = Inr st' \<Longrightarrow> targetNumber st' = targetNumber st"
  by (cases c)
    (auto simp: rollDiceForGame_def dest: applyDiceOperation_targetNumber applyFinalMove_targetNumber)

lemma session_targetNumber: "targetNumber (session st cs) = targetNumber st"
proof (induction cs arbitrary: st)
  case Nil
  show ?case by simp
next
  case (Cons c cs)
  show ?case
  proof (cases "call st c")
    case (Inl e)
    then show ?thesis by (simp add: Cons.IH)
  next
    case (Inr st')
    then show ?thesis by (simp add: Cons.IH call_targetNumber)
  qed
qed

text \<open>
  Claim C8. The target made at bootstrap is a whole number from 50 to 500, and each
  transition of the state machine (\<open>rollDiceForGame\<close>, \<open>applyDiceOperation\<close>,
  \<open>applyFinalMove\<close>) returns a state with the target it was given, so the target is the
  same after any sequence of calls of a session.
\<close>

theorem targetNumber_range_and_constant:
  "(0 \<le> u \<and> u < 1 \<longrightarrow>
      50 \<le> targetNumber (initializeGame playerCount customNames u v)
      \<and> targetNumber (initializeGame playerCount customNames u v) \<le> 500)
   \<and> targetNumber (rollDiceForGame st u1 u2) = targetNumber st
   \<and> (\<forall>st'. applyDiceOperation st op = Inr st' \<longrightarrow> targetNumber st' = targetNumber st)
   \<and> (\<forall>st'. applyFinalMove st op = Inr st' \<longrightarrow> targetNumber st' = targetNumber st)
   \<and> targetNumber (session st cs) = targetNumber st"
proof (intro conjI impI allI)
  assume u: "0 \<le> u \<and> u < 1"
  have "targetNumber (initializeGame playerCount customNames u v) = generateTargetNumber u"
    by (simp add: initializeGame_def Let_def)
  with u generateTargetNumber_range [of u]
  show "50 \<le> targetNumber (initializeGame playerCount customNames u v)"
    and "targetNumber (initializeGame playerCount customNames u v) \<le> 500"
    by simp_all
next
  show "targetNumber (rollDiceForGame st u1 u2) = targetNumber st"
    by (simp add: rollDiceForGame_def)
next
  fix st' assume "applyDiceOperation st op = Inr st'"
  then show "targetNumber st' = targetNumber st" by (rule applyDiceOperation_targetNumber)
next
  fix st' assume "applyFinalMove st op = Inr st'"
  then show "targetNumber st' = targetNumber st" by (rule applyFinalMove_targetNumber)
next
  show "targetNumber (session st cs) = targetNumber st" by (rule session_targetNumber)
qed

theorem targetNumber_range_and_constant_witness:
  "(0::real) \<le> 1 / 2 \<and> (1::real) / 2 < 1
   \<and> targetNumber (initializeGame 2 None (1 / 2) 0) = 275
   \<and> applyDiceOperation (exampleState 50 25 (Some (4, 4)) None DiceOperation) Times
       = Inr (exampleState 50 25 (Some (4, 4)) (Some 16) FinalOperation)
   \<and> targetNumber (exampleState 50 25 (Some (4, 4)) (Some 16) FinalOperation) = 50
   \<and> applyFinalMove (exampleState 50 25 (Some (4, 4)) (Some 16) FinalOperation) Minus
       = Inr ((exampleState 50 9 None None Roll) \<lparr> currentPlayerIndex := 1 \<rparr>)
   \<and> targetNumber ((exampleState 50 9 None None Roll) \<lparr> currentPlayerIndex := 1 \<rparr>) = 50"
proof -
  have h: "(0::real) \<le> 1 / 2 \<and> (1::real) / 2 < 1" by simp
  have d: "applyDiceOperation (exampleState 50 25 (Some (4, 4)) None DiceOperation) Times
             = Inr (exampleState 50 25 (Some (4, 4)) (Some 16) FinalOperation)"
    by (simp add: applyDiceOperation_def exampleState_def roundBinary64_exact)
  have f: "applyFinalMove (exampleState 50 25 (Some (4, 4)) (Some 16) FinalOperation) Minus
             = Inr ((exampleState 50 9 None None Roll) \<lparr> currentPlayerIndex := 1 \<rparr>)"
    by (simp add: applyFinalMove_def exampleState_def at_index_def Let_def smod_int_alt_def
          roundBinary64_exact)
  have t: "targetNumber (initializeGame 2 None (1 / 2) 0) = 275"
    by (simp add: initializeGame_def Let_def generateTargetNumber_def MIN_TARGET_def
          MAX_TARGET_def)
  show ?thesis
    using h d f t
      targetNumber_range_and_constant
        [of "1 / 2" 2 None 0 "exampleState 50 25 (Some (4, 4)) None DiceOperation" 0 0 Times "[]"]
      targetNumber_range_and_constant
        [of "1 / 2" 2 None 0 "exampleState 50 25 (Some (4, 4)) (Some 16) FinalOperation" 0 0
            Minus "[]"]
    by (simp add: exampleState_def)
qed

subsection \<open>Failing transitions\<close>

lemma selectDiceOperation_failure:
  "applyDiceOperation st op = Inl e \<Longrightarrow> selectDiceOperation (Some st) op = Some st"
  by (simp add: selectDiceOperation_def split: option.splits prod.splits)

lemma selectFinalOperation_failure:
  "applyFinalMove st op = Inl e \<Longrightarrow> selectFinalOperation (Some st) op = Some st"
  by (simp add: selectFinalOperation_def split: option.splits)

subsection \<open>The engine on the store refines the engine on values\<close>

lemma deref_append: "deref h r = Some ob \<Longrightarrow> deref (h @ xs) r = Some ob"
  by (auto simp: deref_def nth_append split: if_splits)

lemma deref_allocated: "deref (h @ [ob]) (length h) = Some ob"
  by (simp add: deref_def)

lemma readPlayers_append: "readPlayers h rs = Some ps \<Longrightarrow> readPlayers (h @ xs) rs = Some ps"
proof (induction rs arbitrary: ps)
  case Nil
  then show ?case by simp
next
  case (Cons r rs)
  from Cons.prems obtain player ps' where
    r: "deref h r = Some (PlayerObject player)" and rs: "readPlayers h rs = Some ps'"
    and ps: "ps = player # ps'"
    by (auto split: option.splits object.splits)
  from r have "deref (h @ xs) r = Some (PlayerObject player)" by (rule deref_append)
  moreover from rs have "readPlayers (h @ xs) rs = Some ps'" by (rule Cons.IH)
  ultimately show ?case by (simp add: ps)
qed

lemma readDice_append: "readDice h d = Some x \<Longrightarrow> readDice (h @ xs) d = Some x"
  by (auto simp: readDice_def deref_append split: option.splits object.splits)

lemma readWinner_append: "readWinner h w = Some x \<Longrightarrow> readWinner (h @ xs) w = Some x"
  by (auto simp: readWinner_def deref_append split: option.splits object.splits)

lemma readState_append:
  assumes "readState h g = Some st"
  shows "readState (h @ xs) g = Some st"
proof -
  from assms obtain fs refs ps dice w where
    g: "deref h g = Some (GameStateObject fs)"
    and a: "deref h (playersRef fs) = Some (PlayersArray refs)"
    and p: "readPlayers h refs = Some ps"
    and d: "readDice h (diceResultsRef fs) = Some dice"
    and w: "readWinner h (winnerRef fs) = Some w"
    and st: "st = \<lparr> players = ps,
                     targetNumber = targetNumberField fs,
                     currentPlayerIndex = currentPlayerIndexField fs,
                     diceResults = dice,
                     diceCalculationResult = diceCalculationResultField fs,
                     winner = w,
                     gameStarted = gameStartedField fs,
                     gamePhase = gamePhaseField fs \<rparr>"
    by (auto simp: readState_def split: option.splits object.splits)
  show ?thesis
    by (simp add: readState_def deref_append [OF g] deref_append [OF a]
          readPlayers_append [OF p] readDice_append [OF d] readWinner_append [OF w] st)
qed


lemma readPlayers_length: "readPlayers h rs = Some ps \<Longrightarrow> length ps = length rs"
  by (induction rs arbitrary: ps) (auto split: option.splits object.splits)

lemma readPlayers_nth:
  "readPlayers h rs = Some ps \<Longrightarrow> i < length rs \<Longrightarrow>
     deref h (rs ! i) = Some (PlayerObject (ps ! i))"
proof (induction rs arbitrary: ps i)
  case Nil
  then show ?case by simp
next
  case (Cons r rs)
  from Cons.prems(1) obtain player ps' where
    r: "deref h r = Some (PlayerObject player)" and rs: "readPlayers h rs = Some ps'"
    and ps: "ps = player # ps'"
    by (auto split: option.splits object.splits)
  show ?case
  proof (cases i)
    case 0
    with r ps show ?thesis by simp
  next
    case (Suc j)
    with Cons.prems(2) have "j < length rs" by simp
    with rs have "deref h (rs ! j) = Some (PlayerObject (ps' ! j))" by (rule Cons.IH)
    with Suc ps show ?thesis by simp
  qed
qed

lemma mapPlayers_store_reads:
  assumes "readPlayers h rs = Some ps"
  shows "\<exists>rs' xs.
           mapPlayers_store h rs currentId newNumber = (Inr rs', h @ xs)
           \<and> length rs' = length rs
           \<and> readPlayers (h @ xs) rs' =
               Some (map (\<lambda>player. if id_player player = currentId
                                     then player \<lparr> currentNumber := newNumber \<rparr>
                                     else player) ps)"
  using assms
proof (induction rs arbitrary: h ps)
  case Nil
  then have "mapPlayers_store h [] currentId newNumber = (Inr [], h @ [])" by simp
  with Nil show ?case by fastforce
next
  case (Cons r rs)
  let ?f = "\<lambda>player. if id_player player = currentId
                        then player \<lparr> currentNumber := newNumber \<rparr> else player"
  from Cons.prems obtain player ps' where
    r: "deref h r = Some (PlayerObject player)" and rs: "readPlayers h rs = Some ps'"
    and ps: "ps = player # ps'"
    by (auto split: option.splits object.splits)
  show ?case
  proof (cases "id_player player = currentId")
    case True
    let ?ob = "PlayerObject (player \<lparr> currentNumber := newNumber \<rparr>)"
    from rs have "readPlayers (h @ [?ob]) rs = Some ps'" by (rule readPlayers_append)
    from Cons.IH [OF this] obtain rs' xs where
      m: "mapPlayers_store (h @ [?ob]) rs currentId newNumber = (Inr rs', (h @ [?ob]) @ xs)"
      and l: "length rs' = length rs"
      and p: "readPlayers ((h @ [?ob]) @ xs) rs' = Some (map ?f ps')"
      by blast
    have d: "deref ((h @ [?ob]) @ xs) (length h) = Some ?ob"
      using deref_allocated by (rule deref_append)
    have "mapPlayers_store h (r # rs) currentId newNumber
            = (Inr (length h # rs'), h @ ([?ob] @ xs))"
      using r True m by (simp add: allocate_def)
    moreover have "readPlayers (h @ ([?ob] @ xs)) (length h # rs') = Some (map ?f ps)"
      using d p True by (simp add: ps)
    ultimately show ?thesis using l by fastforce
  next
    case False
    from Cons.IH [OF rs] obtain rs' xs where
      m: "mapPlayers_store h rs currentId newNumber = (Inr rs', h @ xs)"
      and l: "length rs' = length rs"
      and p: "readPlayers (h @ xs) rs' = Some (map ?f ps')"
      by blast
    have d: "deref (h @ xs) r = Some (PlayerObject player)"
      using r by (rule deref_append)
    have "mapPlayers_store h (r # rs) currentId newNumber = (Inr (r # rs'), h @ xs)"
      using r False m by simp
    moreover have "readPlayers (h @ xs) (r # rs') = Some (map ?f ps)"
      using d p False by (simp add: ps)
    ultimately show ?thesis using l by fastforce
  qed
qed

lemma applyDiceOperation_store_refines:
  assumes "readState h g = Some st"
  shows "case applyDiceOperation st op of
           Inl e \<Rightarrow> applyDiceOperation_store h g op = (Inl e, h)
         | Inr st' \<Rightarrow>
             \<exists>r xs. applyDiceOperation_store h g op = (Inr r, h @ xs)
                    \<and> readState (h @ xs) r = Some st'"
proof -
  from assms obtain fs refs ps dice w where
    g: "deref h g = Some (GameStateObject fs)"
    and a: "deref h (playersRef fs) = Some (PlayersArray refs)"
    and p: "readPlayers h refs = Some ps"
    and d: "readDice h (diceResultsRef fs) = Some dice"
    and w: "readWinner h (winnerRef fs) = Some w"
    and st: "st = \<lparr> players = ps,
                     targetNumber = targetNumberField fs,
                     currentPlayerIndex = currentPlayerIndexField fs,
                     diceResults = dice,
                     diceCalculationResult = diceCalculationResultField fs,
                     winner = w,
                     gameStarted = gameStartedField fs,
                     gamePhase = gamePhaseField fs \<rparr>"
    by (auto simp: readState_def split: option.splits object.splits)
  show ?thesis
  proof (cases "diceResultsRef fs")
    case None
    with d have "dice = None" by (simp add: readDice_def)
    with None g show ?thesis
      by (simp add: st applyDiceOperation_def applyDiceOperation_store_def)
  next
    case (Some dr)
    with d obtain dice1 dice2 where
      dr: "deref h dr = Some (DiceArray dice1 dice2)" and dice: "dice = Some (dice1, dice2)"
      by (auto simp: readDice_def split: option.splits object.splits)
    show ?thesis
    proof (cases "applyOperation dice1 dice2 op")
      case (Inl e)
      with Some dr dice g show ?thesis
        by (simp add: st applyDiceOperation_def applyDiceOperation_store_def)
    next
      case (Inr result)
      let ?fs' = "fs \<lparr> diceCalculationResultField := Some result,
                        gamePhaseField := FinalOperation \<rparr>"
      let ?h' = "h @ [GameStateObject ?fs']"
      have run: "applyDiceOperation_store h g op = (Inr (length h), ?h')"
        using Some dr g Inr by (simp add: applyDiceOperation_store_def allocate_def)
      have pure: "applyDiceOperation st op =
                    Inr (st \<lparr> diceCalculationResult := Some result,
                              gamePhase := FinalOperation \<rparr>)"
        using dice Inr by (simp add: st applyDiceOperation_def)
      have "readState ?h' (length h) =
              Some (st \<lparr> diceCalculationResult := Some result, gamePhase := FinalOperation \<rparr>)"
        using deref_append [OF a] readPlayers_append [OF p] readDice_append [OF d]
          readWinner_append [OF w]
        by (simp add: readState_def deref_allocated st)
      with run pure show ?thesis by fastforce
    qed
  qed
qed


lemma applyFinalMove_store_refines:
  assumes "readState h g = Some st"
  shows "case applyFinalMove st op of
           Inl e \<Rightarrow> applyFinalMove_store h g op = (Inl e, h)
         | Inr st' \<Rightarrow>
             \<exists>r xs. applyFinalMove_store h g op = (Inr r, h @ xs)
                    \<and> readState (h @ xs) r = Some st'"
proof -
  from assms obtain fs refs ps dice w where
    g: "deref h g = Some (GameStateObject fs)"
    and a: "deref h (playersRef fs) = Some (PlayersArray refs)"
    and p: "readPlayers h refs = Some ps"
    and st: "st = \<lparr> players = ps,
                     targetNumber = targetNumberField fs,
                     currentPlayerIndex = currentPlayerIndexField fs,
                     diceResults = dice,
                     diceCalculationResult = diceCalculationResultField fs,
                     winner = w,
                     gameStarted = gameStartedField fs,
                     gamePhase = gamePhaseField fs \<rparr>"
    by (auto simp: readState_def split: option.splits object.splits)
  have len: "length ps = length refs" using p by (rule readPlayers_length)
  let ?c = "currentPlayerIndexField fs"
  show ?thesis
  proof (cases "diceCalculationResultField fs")
    case None
    with g show ?thesis by (simp add: st applyFinalMove_def applyFinalMove_store_def)
  next
    case (Some d)
    show ?thesis
    proof (cases "d = 0")
      case True
      with Some g show ?thesis by (simp add: st applyFinalMove_def applyFinalMove_store_def)
    next
      case nz: False
      show ?thesis
      proof (cases "0 \<le> ?c \<and> ?c < int (length refs)")
        case False
        then have "at_index refs ?c = None" and "at_index ps ?c = None"
          using len by (auto simp: at_index_def)
        with Some nz g a show ?thesis
          by (simp add: st applyFinalMove_def applyFinalMove_store_def)
      next
        case True
        let ?i = "nat ?c"
        let ?cp = "ps ! ?i"
        from True have i: "?i < length refs" by (auto simp: nat_less_iff)
        have ar: "at_index refs ?c = Some (refs ! ?i)" and ap: "at_index ps ?c = Some ?cp"
          using True len by (simp_all add: at_index_def)
        have dc: "deref h (refs ! ?i) = Some (PlayerObject ?cp)"
          using p i by (rule readPlayers_nth)
        show ?thesis
        proof (cases "applyOperation (currentNumber ?cp) d op")
          case (Inl e)
          with Some nz g a ar ap dc show ?thesis
            by (simp add: st applyFinalMove_def applyFinalMove_store_def)
        next
          case (Inr newNumber)
          let ?f = "\<lambda>player. if id_player player = id_player ?cp
                                then player \<lparr> currentNumber := newNumber \<rparr> else player"
          from mapPlayers_store_reads [OF p, of "id_player ?cp" newNumber] obtain rs' xs where
            m: "mapPlayers_store h refs (id_player ?cp) newNumber = (Inr rs', h @ xs)"
            and rp: "readPlayers (h @ xs) rs' = Some (map ?f ps)"
            by blast
          define win where
            "win = (if newNumber = targetNumberField fs then Some (refs ! ?i) else None)"
          define nextIndex where
            "nextIndex = (if newNumber = targetNumberField fs then ?c
                          else (?c + 1) smod int (length refs))"
          define fs' where
            "fs' = fs \<lparr> playersRef := length (h @ xs),
                          currentPlayerIndexField := nextIndex,
                          diceResultsRef := None,
                          diceCalculationResultField := None,
                          winnerRef := win,
                          gamePhaseField := Roll \<rparr>"
          define h2 where "h2 = (h @ xs) @ [PlayersArray rs']"
          define h3 where "h3 = h2 @ [GameStateObject fs']"
          define st' where
            "st' = st \<lparr> players := map ?f ps,
                          currentPlayerIndex := nextIndex,
                          diceResults := None,
                          diceCalculationResult := None,
                          winner := (if newNumber = targetNumberField fs
                                     then Some ?cp else None),
                          gamePhase := Roll \<rparr>"
          have run: "applyFinalMove_store h g op = (Inr (length h2), h3)"
            using Some nz g a ar dc Inr m
            by (simp add: applyFinalMove_store_def allocate_def Let_def h3_def h2_def fs'_def
                  win_def nextIndex_def)
          have pure: "applyFinalMove st op = Inr st'"
            using Some nz ap Inr len
            by (simp add: st applyFinalMove_def Let_def st'_def nextIndex_def)
          have d1: "deref h3 (length h2) = Some (GameStateObject fs')"
            unfolding h3_def by (rule deref_allocated)
          have "deref h2 (length (h @ xs)) = Some (PlayersArray rs')"
            unfolding h2_def by (rule deref_allocated)
          then have d2: "deref h3 (length (h @ xs)) = Some (PlayersArray rs')"
            unfolding h3_def by (rule deref_append)
          have "readPlayers h2 rs' = Some (map ?f ps)"
            unfolding h2_def using rp by (rule readPlayers_append)
          then have d3: "readPlayers h3 rs' = Some (map ?f ps)"
            unfolding h3_def by (rule readPlayers_append)
          have "deref (h @ xs) (refs ! ?i) = Some (PlayerObject ?cp)"
            using dc by (rule deref_append)
          then have "deref h2 (refs ! ?i) = Some (PlayerObject ?cp)"
            unfolding h2_def by (rule deref_append)
          then have d4: "deref h3 (refs ! ?i) = Some (PlayerObject ?cp)"
            unfolding h3_def by (rule deref_append)
          have rw: "readWinner h3 win
                      = Some (if newNumber = targetNumberField fs then Some ?cp else None)"
            using d4 by (simp add: readWinner_def win_def)
          have rd: "readDice h3 None = Some None"
            by (simp add: readDice_def)
          have f1: "playersRef fs' = length (h @ xs)" and f2: "diceResultsRef fs' = None"
            and f3: "winnerRef fs' = win"
            by (simp_all add: fs'_def)
          have "readState h3 (length h2) = Some st'"
            unfolding readState_def d1
            using d2 d3 rw rd by (simp add: f1 f2 f3 st st'_def fs'_def)
          moreover have "h3 = h @ (xs @ [PlayersArray rs', GameStateObject fs'])"
            by (simp add: h3_def h2_def)
          ultimately have "\<exists>r ys. applyFinalMove_store h g op = (Inr r, h @ ys)
                                  \<and> readState (h @ ys) r = Some st'"
            using run by metis
          with pure show ?thesis by simp
        qed
      qed
    qed
  qed
qed

text \<open>
  Claim C9. Whenever \<open>applyDiceOperation\<close> or \<open>applyFinalMove\<close> fails, no new game
  state is produced and the game state the caller holds is unchanged: the store after the
  failing call is the store before it, so no object was created and none was changed, and
  the caller's reference denotes the state it denoted, with the same index of the current
  player. The calls fail on the store exactly when they fail on the value, with the same
  error. Every transition is all or nothing: a call that returns yields a reference to
  the complete new state, and the caller's reference still denotes the old one.
\<close>

theorem failed_transition_changes_nothing:
  assumes "readState h g = Some st"
  shows "(\<forall>e h'. applyDiceOperation_store h g op = (Inl e, h') \<longrightarrow>
            h' = h \<and> readState h' g = Some st \<and> applyDiceOperation st op = Inl e)
         \<and> (\<forall>e h'. applyFinalMove_store h g op = (Inl e, h') \<longrightarrow>
            h' = h \<and> readState h' g = Some st \<and> applyFinalMove st op = Inl e)
         \<and> (\<forall>e. applyDiceOperation st op = Inl e \<longrightarrow>
            applyDiceOperation_store h g op = (Inl e, h))
         \<and> (\<forall>e. applyFinalMove st op = Inl e \<longrightarrow>
            applyFinalMove_store h g op = (Inl e, h))
         \<and> (\<forall>r h'. applyDiceOperation_store h g op = (Inr r, h') \<longrightarrow>
            readState h' g = Some st
            \<and> (\<exists>st'. applyDiceOperation st op = Inr st' \<and> readState h' r = Some st'))
         \<and> (\<forall>r h'. applyFinalMove_store h g op = (Inr r, h') \<longrightarrow>
            readState h' g = Some st
            \<and> (\<exists>st'. applyFinalMove st op = Inr st' \<and> readState h' r = Some st'))"
proof -
  note d = applyDiceOperation_store_refines [OF assms, of op]
  note f = applyFinalMove_store_refines [OF assms, of op]
  have d_fail: "h' = h \<and> readState h' g = Some st \<and> applyDiceOperation st op = Inl e"
    if "applyDiceOperation_store h g op = (Inl e, h')" for e h'
    using d that assms by (cases "applyDiceOperation st op") auto
  have f_fail: "h' = h \<and> readState h' g = Some st \<and> applyFinalMove st op = Inl e"
    if "applyFinalMove_store h g op = (Inl e, h')" for e h'
    using f that assms by (cases "applyFinalMove st op") auto
  have d_pure: "applyDiceOperation_store h g op = (Inl e, h)"
    if "applyDiceOperation st op = Inl e" for e
    using d that by simp
  have f_pure: "applyFinalMove_store h g op = (Inl e, h)"
    if "applyFinalMove st op = Inl e" for e
    using f that by simp
  have d_ok: "readState h' g = Some st
              \<and> (\<exists>st'. applyDiceOperation st op = Inr st' \<and> readState h' r = Some st')"
    if "applyDiceOperation_store h g op = (Inr r, h')" for r h'
    using d that readState_append [OF assms] by (cases "applyDiceOperation st op") auto
  have f_ok: "readState h' g = Some st
              \<and> (\<exists>st'. applyFinalMove st op = Inr st' \<and> readState h' r = Some st')"
    if "applyFinalMove_store h g op = (Inr r, h')" for r h'
    using f that readState_append [OF assms] by (cases "applyFinalMove st op") auto
  from d_fail f_fail d_pure f_pure d_ok f_ok show ?thesis by blast
qed

lemma readState_exampleStore:
  "readState exampleStore 4 = Some (exampleState 50 25 (Some (3, 2)) (Some 2) FinalOperation)"
  by code_simp

theorem failed_transition_changes_nothing_witness:
  "readState exampleStore 4 = Some (exampleState 50 25 (Some (3, 2)) (Some 2) FinalOperation)
   \<and> applyDiceOperation (exampleState 50 25 (Some (3, 2)) (Some 2) FinalOperation) Divide
       = Inl InexactDivision
   \<and> applyDiceOperation_store exampleStore 4 Divide = (Inl InexactDivision, exampleStore)
   \<and> applyFinalMove (exampleState 50 25 (Some (3, 2)) (Some 2) FinalOperation) Divide
       = Inl InexactDivision
   \<and> applyFinalMove_store exampleStore 4 Divide = (Inl InexactDivision, exampleStore)
   \<and> fst (applyDiceOperation_store exampleStore 4 Times) = Inr 5
   \<and> readState (snd (applyDiceOperation_store exampleStore 4 Times)) 4
       = Some (exampleState 50 25 (Some (3, 2)) (Some 2) FinalOperation)
   \<and> fst (applyFinalMove_store exampleStore 4 Plus) = Inr 7
   \<and> readState (snd (applyFinalMove_store exampleStore 4 Plus)) 4
       = Some (exampleState 50 25 (Some (3, 2)) (Some 2) FinalOperation)"
proof -
  let ?S = "exampleState 50 25 (Some (3, 2)) (Some 2) FinalOperation"
  have r: "readState exampleStore 4 = Some ?S"
    by (rule readState_exampleStore)
  have pd: "applyDiceOperation ?S Divide = Inl InexactDivision"
    by (simp add: applyDiceOperation_def exampleState_def smod_int_alt_def)
  have pf: "applyFinalMove ?S Divide = Inl InexactDivision"
    by (simp add: applyFinalMove_def exampleState_def at_index_def smod_int_alt_def)
  have sd: "applyDiceOperation_store exampleStore 4 Divide = (Inl InexactDivision, exampleStore)"
    using failed_transition_changes_nothing [OF r, of Divide] pd by blast
  have sf: "applyFinalMove_store exampleStore 4 Divide = (Inl InexactDivision, exampleStore)"
    using failed_transition_changes_nothing [OF r, of Divide] pf by blast
  have td: "fst (applyDiceOperation_store exampleStore 4 Times) = Inr 5"
    by code_simp
  have tf: "fst (applyFinalMove_store exampleStore 4 Plus) = Inr 7"
    by code_simp
  have "applyDiceOperation_store exampleStore 4 Times
          = (Inr 5, snd (applyDiceOperation_store exampleStore 4 Times))"
    using td by (metis prod.collapse)
  then have od: "readState (snd (applyDiceOperation_store exampleStore 4 Times)) 4 = Some ?S"
    using failed_transition_changes_nothing [OF r, of Times] by blast
  have "applyFinalMove_store exampleStore 4 Plus
          = (Inr 7, snd (applyFinalMove_store exampleStore 4 Plus))"
    using tf by (metis prod.collapse)
  then have "readState (snd (applyFinalMove_store exampleStore 4 Plus)) 4 = Some ?S"
    using failed_transition_changes_nothing [OF r, of Plus] by blast
  with r pd sd pf sf td od tf show ?thesis by blast
qed

subsection \<open>The final move\<close>

lemma map_update_distinct:
  assumes d: "distinct (map f xs)" and i: "i < length xs"
  shows "map (\<lambda>x. if f x = f (xs ! i) then g x else x) xs = xs[i := g (xs ! i)]"
proof (rule nth_equalityI)
  show "length (map (\<lambda>x. if f x = f (xs ! i) then g x else x) xs) = length (xs[i := g (xs ! i)])"
    by simp
next
  fix j
  assume "j < length (map (\<lambda>x. if f x = f (xs ! i) then g x else x) xs)"
  then have j: "j < length xs" by simp
  show "map (\<lambda>x. if f x = f (xs ! i) then g x else x) xs ! j = xs[i := g (xs ! i)] ! j"
  proof (cases "j = i")
    case True
    with i show ?thesis by simp
  next
    case False
    have "f (xs ! j) \<noteq> f (xs ! i)"
    proof
      assume "f (xs ! j) = f (xs ! i)"
      then have e: "map f xs ! j = map f xs ! i" using i j by simp
      have "j < length (map f xs)" and "i < length (map f xs)" using i j by simp_all
      with d e have "j = i" using nth_eq_iff_index_eq [of "map f xs" j i] by blast
      with False show False by simp
    qed
    with i j False show ?thesis by simp
  qed
qed

text \<open>
  What a final move does when the guard lets it through. The state is well formed (the
  index names a seat and the seat identifiers are distinct), the stored dice result \<open>d\<close>
  is not zero, and the operation on the current number and \<open>d\<close> gives \<open>newNumber\<close>.
  Then the seat of the current player, and no other, gets \<open>newNumber\<close>; on the target the
  winner is the current player and the index stays, otherwise there is no winner and the
  index moves to the next seat, wrapping around; dice and dice result are cleared and the
  phase is \<open>roll\<close>.
\<close>

lemma applyFinalMove_effect:
  assumes dcr: "diceCalculationResult st = Some d" and nz: "d \<noteq> 0"
    and lo: "0 \<le> currentPlayerIndex st"
    and hi: "currentPlayerIndex st < int (length (players st))"
    and ids: "distinct (map id_player (players st))"
    and ok: "applyOperation (currentNumber (players st ! nat (currentPlayerIndex st))) d op
               = Inr newNumber"
  shows "applyFinalMove st op =
           Inr (st \<lparr> players :=
                       (players st)[nat (currentPlayerIndex st) :=
                          (players st ! nat (currentPlayerIndex st))
                            \<lparr> currentNumber := newNumber \<rparr>],
                     currentPlayerIndex :=
                       (if newNumber = targetNumber st then currentPlayerIndex st
                        else (currentPlayerIndex st + 1) mod int (length (players st))),
                     diceResults := None,
                     diceCalculationResult := None,
                     winner :=
                       (if newNumber = targetNumber st
                        then Some (players st ! nat (currentPlayerIndex st)) else None),
                     gamePhase := Roll \<rparr>)"
proof -
  let ?i = "nat (currentPlayerIndex st)"
  have i: "?i < length (players st)" using lo hi by simp
  have at: "at_index (players st) (currentPlayerIndex st) = Some (players st ! ?i)"
    using lo hi by (simp add: at_index_def)
  have upd: "map (\<lambda>player. if id_player player = id_player (players st ! ?i)
                            then player \<lparr> currentNumber := newNumber \<rparr> else player) (players st)
             = (players st)[?i := (players st ! ?i) \<lparr> currentNumber := newNumber \<rparr>]"
    using map_update_distinct [OF ids i, of "\<lambda>p. p \<lparr> currentNumber := newNumber \<rparr>"] .
  have rem: "(currentPlayerIndex st + 1) smod int (length (players st))
             = (currentPlayerIndex st + 1) mod int (length (players st))"
    using lo hi by (rule smod_next_index)
  show ?thesis
    by (simp add: applyFinalMove_def dcr nz at ok Let_def upd rem)
qed

text \<open>
  The two scenarios of the specification: from 25 with dice result 16, \<open>-\<close> gives 9 and
  the turn passes to the second seat; from 45 with dice result 5 and target 50, \<open>+\<close>
  gives 50, the first seat wins and keeps the turn.
\<close>

lemma scenario_turn_passes:
  "applyFinalMove (exampleState 50 25 (Some (4, 4)) (Some 16) FinalOperation) Minus
     = Inr ((exampleState 50 9 None None Roll) \<lparr> currentPlayerIndex := 1 \<rparr>)"
  using applyFinalMove_effect
    [of "exampleState 50 25 (Some (4, 4)) (Some 16) FinalOperation" 16 Minus 9]
  by (simp add: exampleState_def roundBinary64_exact)

lemma scenario_win:
  "applyFinalMove (exampleState 50 45 None (Some 5) FinalOperation) Plus
     = Inr ((exampleState 50 50 None None Roll)
              \<lparr> winner := Some \<lparr> id_player = 1, name = ''Oyuncu 1'', currentNumber = 45,
                                 color = Some ''#FF6B6B'' \<rparr> \<rparr>)"
  using applyFinalMove_effect [of "exampleState 50 45 None (Some 5) FinalOperation" 5 Plus 50]
  by (simp add: exampleState_def roundBinary64_exact)

lemma applyFinalMove_winner:
  assumes "applyFinalMove st op = Inr st'" and "winner st' = Some w"
  shows "\<exists>d. diceCalculationResult st = Some d
             \<and> at_index (players st) (currentPlayerIndex st) = Some w
             \<and> applyOperation (currentNumber w) d op = Inr (targetNumber st)
             \<and> st' = st \<lparr> players :=
                            map (\<lambda>player. if id_player player = id_player w
                                           then player \<lparr> currentNumber := targetNumber st \<rparr>
                                           else player) (players st),
                          currentPlayerIndex := currentPlayerIndex st,
                          diceResults := None,
                          diceCalculationResult := None,
                          winner := Some w,
                          gamePhase := Roll \<rparr>"
  using assms
  by (auto simp: applyFinalMove_def Let_def split: option.splits sum.splits if_splits)

text \<open>
  Claim C10. When \<open>applyFinalMove\<close> sets the winner, the stored winner is the record of
  the current player as it was before the move: its \<open>currentNumber\<close> is the number the
  player had before the winning move, not the target, while the entry of that player in
  the returned \<open>players\<close> carries the target.

  The number before the move can be the target itself. After the first seat has won on
  50, the dice 1 and 1 and the operation \<open>*\<close> give the dice result 1; the final move
  \<open>*\<close> keeps the player on 50 and sets the winner again, and this time the stored
  winner carries the target.
\<close>

theorem winner_on_target_counterexample:
  "session (exampleState 50 45 None (Some 5) FinalOperation)
           [CallFinalMove Plus, CallRollDice 0 0, CallDiceOperation Times]
     = (exampleState 50 50 (Some (1, 1)) (Some 1) FinalOperation)
         \<lparr> winner := Some \<lparr> id_player = 1, name = ''Oyuncu 1'', currentNumber = 45,
                            color = Some ''#FF6B6B'' \<rparr> \<rparr>
   \<and> applyFinalMove
         ((exampleState 50 50 (Some (1, 1)) (Some 1) FinalOperation)
            \<lparr> winner := Some \<lparr> id_player = 1, name = ''Oyuncu 1'', currentNumber = 45,
                               color = Some ''#FF6B6B'' \<rparr> \<rparr>)
         Times
       = Inr ((exampleState 50 50 None None Roll)
                \<lparr> winner := Some \<lparr> id_player = 1, name = ''Oyuncu 1'', currentNumber = 50,
                                   color = Some ''#FF6B6B'' \<rparr> \<rparr>)
   \<and> currentNumber \<lparr> id_player = 1, name = ''Oyuncu 1'', currentNumber = 50,
                      color = Some ''#FF6B6B'' \<rparr>
       = targetNumber ((exampleState 50 50 None None Roll)
                \<lparr> winner := Some \<lparr> id_player = 1, name = ''Oyuncu 1'', currentNumber = 50,
                                   color = Some ''#FF6B6B'' \<rparr> \<rparr>)"
  by code_simp

text \<open>
  Claim C10, as the code has it. When \<open>applyFinalMove\<close> sets the winner, the stored
  winner is the record of the current player as it was before the move, so its
  \<open>currentNumber\<close> is the number the player had before the winning move (which is the
  target only if the player already stood on the target). The entry of that player in
  the returned \<open>players\<close> is the same record with the target as its \<open>currentNumber\<close>.
\<close>

theorem winner_is_pre_move_record:
  assumes "applyFinalMove st op = Inr st'" and "winner st' = Some w"
  shows "getCurrentPlayer st = Some w
         \<and> 0 \<le> currentPlayerIndex st
         \<and> currentPlayerIndex st < int (length (players st))
         \<and> w = players st ! nat (currentPlayerIndex st)
         \<and> (\<exists>d. diceCalculationResult st = Some d
                \<and> applyOperation (currentNumber w) d op = Inr (targetNumber st))
         \<and> currentPlayerIndex st' = currentPlayerIndex st
         \<and> length (players st') = length (players st)
         \<and> players st' ! nat (currentPlayerIndex st) = w \<lparr> currentNumber := targetNumber st \<rparr>"
proof -
  let ?i = "nat (currentPlayerIndex st)"
  from applyFinalMove_winner [OF assms] obtain d where
    d: "diceCalculationResult st = Some d"
    and at: "at_index (players st) (currentPlayerIndex st) = Some w"
    and ok: "applyOperation (currentNumber w) d op = Inr (targetNumber st)"
    and st': "st' = st \<lparr> players :=
                            map (\<lambda>player. if id_player player = id_player w
                                           then player \<lparr> currentNumber := targetNumber st \<rparr>
                                           else player) (players st),
                          currentPlayerIndex := currentPlayerIndex st,
                          diceResults := None,
                          diceCalculationResult := None,
                          winner := Some w,
                          gamePhase := Roll \<rparr>"
    by blast
  from at have lo: "0 \<le> currentPlayerIndex st"
    and hi: "currentPlayerIndex st < int (length (players st))"
    and w: "w = players st ! ?i"
    by (auto simp: at_index_def split: if_splits)
  from lo hi have i: "?i < length (players st)" by simp
  have entry: "players st' ! ?i = w \<lparr> currentNumber := targetNumber st \<rparr>"
    using i w by (simp add: st')
  have len: "length (players st') = length (players st)"
    by (simp add: st')
  have idx: "currentPlayerIndex st' = currentPlayerIndex st"
    by (simp add: st')
  show ?thesis
    using at lo hi w d ok len idx entry by (simp add: getCurrentPlayer_def)
qed

theorem winner_is_pre_move_record_witness:
  "applyFinalMove (exampleState 50 45 None (Some 5) FinalOperation) Plus
     = Inr ((exampleState 50 50 None None Roll)
              \<lparr> winner := Some \<lparr> id_player = 1, name = ''Oyuncu 1'', currentNumber = 45,
                                 color = Some ''#FF6B6B'' \<rparr> \<rparr>)
   \<and> getCurrentPlayer (exampleState 50 45 None (Some 5) FinalOperation)
       = Some \<lparr> id_player = 1, name = ''Oyuncu 1'', currentNumber = 45,
                color = Some ''#FF6B6B'' \<rparr>
   \<and> players ((exampleState 50 50 None None Roll)
              \<lparr> winner := Some \<lparr> id_player = 1, name = ''Oyuncu 1'', currentNumber = 45,
                                 color = Some ''#FF6B6B'' \<rparr> \<rparr>)
         ! nat (currentPlayerIndex (exampleState 50 45 None (Some 5) FinalOperation))
       = \<lparr> id_player = 1, name = ''Oyuncu 1'', currentNumber = 45,
           color = Some ''#FF6B6B'' \<rparr>
           \<lparr> currentNumber := targetNumber (exampleState 50 45 None (Some 5) FinalOperation) \<rparr>
   \<and> targetNumber (exampleState 50 45 None (Some 5) FinalOperation) = 50"
proof -
  have a: "applyFinalMove (exampleState 50 45 None (Some 5) FinalOperation) Plus
     = Inr ((exampleState 50 50 None None Roll)
              \<lparr> winner := Some \<lparr> id_player = 1, name = ''Oyuncu 1'', currentNumber = 45,
                                 color = Some ''#FF6B6B'' \<rparr> \<rparr>)"
    by (simp add: applyFinalMove_def exampleState_def at_index_def Let_def roundBinary64_exact)
  have b: "winner ((exampleState 50 50 None None Roll)
              \<lparr> winner := Some \<lparr> id_player = 1, name = ''Oyuncu 1'', currentNumber = 45,
                                 color = Some ''#FF6B6B'' \<rparr> \<rparr>)
            = Some \<lparr> id_player = 1, name = ''Oyuncu 1'', currentNumber = 45,
                    color = Some ''#FF6B6B'' \<rparr>"
    by simp
  note r = winner_is_pre_move_record [OF a b]
  have g: "getCurrentPlayer (exampleState 50 45 None (Some 5) FinalOperation)
             = Some \<lparr> id_player = 1, name = ''Oyuncu 1'', currentNumber = 45,
                      color = Some ''#FF6B6B'' \<rparr>"
    using r by blast
  have n: "players ((exampleState 50 50 None None Roll)
              \<lparr> winner := Some \<lparr> id_player = 1, name = ''Oyuncu 1'', currentNumber = 45,
                                 color = Some ''#FF6B6B'' \<rparr> \<rparr>)
         ! nat (currentPlayerIndex (exampleState 50 45 None (Some 5) FinalOperation))
       = \<lparr> id_player = 1, name = ''Oyuncu 1'', currentNumber = 45,
           color = Some ''#FF6B6B'' \<rparr>
           \<lparr> currentNumber := targetNumber (exampleState 50 45 None (Some 5) FinalOperation) \<rparr>"
    using r by blast
  have t: "targetNumber (exampleState 50 45 None (Some 5) FinalOperation) = 50"
    by (simp add: exampleState_def)
  from a g n t show ?thesis by blast
qed

subsection \<open>The guard of the final move\<close>

lemma applyFinalMove_guard_iff:
  "(applyFinalMove st op = Inl DiceOperationMissing)
     = (diceCalculationResult st = None \<or> diceCalculationResult st = Some 0)"
  by (cases op) (auto simp: applyFinalMove_def Let_def split: option.splits sum.splits if_splits)

text \<open>
  Claim C1. For every state whose \<open>diceCalculationResult\<close> is present and every operation
  that succeeds on the current number and that result, \<open>applyFinalMove\<close> puts the new
  number on the current player, leaves the other players as they are, sets the winner and
  keeps the index on the target, or leaves the winner absent and moves the index to the
  next seat, clears dice and dice result and returns to the phase \<open>roll\<close>.

  Lemma \<open>applyFinalMove_effect\<close> is this statement for every stored result other than
  zero. For the stored result zero the code departs from the claim: a game of two, the
  dice 3 and 3 and the operation \<open>-\<close> lead to the state below, where \<open>5 + 0\<close> succeeds
  with 5 and \<open>applyFinalMove\<close> throws instead of making the move.
\<close>

theorem applyFinalMove_zero_result_blocks_legal_move:
  "applyDiceOperation (rollDiceForGame (initializeGame 2 None (1 / 2) 0) (2 / 5) (2 / 5)) Minus
     = Inr (exampleState 275 5 (Some (3, 3)) (Some 0) FinalOperation)
   \<and> getCurrentPlayer (exampleState 275 5 (Some (3, 3)) (Some 0) FinalOperation)
       = Some \<lparr> id_player = 1, name = ''Oyuncu 1'', currentNumber = 5,
                color = Some ''#FF6B6B'' \<rparr>
   \<and> applyOperation 5 0 Plus = Inr 5
   \<and> applyFinalMove (exampleState 275 5 (Some (3, 3)) (Some 0) FinalOperation) Plus
       = Inl DiceOperationMissing"
  by code_simp

text \<open>
  Claim C2. \<open>applyFinalMove\<close> fails with the precondition error of its guard (no dice
  operation performed yet) exactly when \<open>diceCalculationResult\<close> is absent; a stored
  result, zero included, lets the call go on to the chosen operation.

  Lemma \<open>applyFinalMove_guard_iff\<close> is what the guard does: it throws for an absent
  result and for the stored result zero. The theorem evaluates the code at a state that
  stores zero: the result is present and every operation fails with the precondition
  error.
\<close>

theorem applyFinalMove_stored_zero_precondition_error:
  "diceCalculationResult (exampleState 275 5 (Some (3, 3)) (Some 0) FinalOperation) = Some 0
   \<and> applyFinalMove (exampleState 275 5 (Some (3, 3)) (Some 0) FinalOperation) Plus
       = Inl DiceOperationMissing
   \<and> applyFinalMove (exampleState 275 5 (Some (3, 3)) (Some 0) FinalOperation) Minus
       = Inl DiceOperationMissing
   \<and> applyFinalMove (exampleState 275 5 (Some (3, 3)) (Some 0) FinalOperation) Times
       = Inl DiceOperationMissing
   \<and> applyFinalMove (exampleState 275 5 (Some (3, 3)) (Some 0) FinalOperation) Divide
       = Inl DiceOperationMissing
   \<and> PreconditionError DiceOperationMissing"
  by (simp add: applyFinalMove_def exampleState_def PreconditionError_def)

subsection \<open>Bootstrap without a range check\<close>

lemma pushPlayers_eq:
  "pushPlayers playerCount customNames i ps
     = ps @ map (newPlayer customNames) [i..<nat playerCount]"
proof (induction playerCount customNames i ps rule: pushPlayers.induct)
  case (1 playerCount customNames i ps)
  show ?case
  proof (cases "int i < playerCount")
    case True
    then have "i < nat playerCount" by simp
    then have "[i..<nat playerCount] = i # [Suc i..<nat playerCount]"
      by (simp add: upt_conv_Cons)
    with True "1.IH" show ?thesis
      by (subst pushPlayers.simps) simp
  next
    case False
    then have "nat playerCount \<le> i" by simp
    with False show ?thesis
      by (subst pushPlayers.simps) simp
  qed
qed

text \<open>
  Claim C3. For every \<open>playerCount\<close> outside the range from 2 to 4, \<open>initializeGame\<close>
  fails with a configuration error and returns no state.

  The function has no such check: for one player it returns the state below.
\<close>

theorem initializeGame_one_player_counterexample:
  "initializeGame 1 None 0 0 =
     \<lparr> players =
         [\<lparr> id_player = 1, name = ''Oyuncu 1'', currentNumber = 5,
            color = Some ''#FF6B6B'' \<rparr>],
       targetNumber = 50,
       currentPlayerIndex = 0,
       diceResults = None,
       diceCalculationResult = None,
       winner = None,
       gameStarted = True,
       gamePhase = Roll \<rparr>"
  by code_simp

text \<open>
  Claim C3, as the code has it. For every whole number \<open>playerCount\<close>, inside the range
  from 2 to 4 or outside it, \<open>initializeGame\<close> returns a state and does not fail: one
  player for each seat below \<open>playerCount\<close> (none when \<open>playerCount\<close> is not positive),
  every player on the starting number 5, no dice, no dice result, no winner, phase
  \<open>roll\<close>. The bound on the number of players is that of the home screen, which offers
  2, 3 and 4.
\<close>

theorem initializeGame_no_range_check:
  "players (initializeGame playerCount customNames uTarget uStart)
     = map (newPlayer customNames) [0..<nat playerCount]
   \<and> length (players (initializeGame playerCount customNames uTarget uStart))
       = nat playerCount
   \<and> map currentNumber (players (initializeGame playerCount customNames uTarget uStart))
       = replicate (nat playerCount) 5
   \<and> targetNumber (initializeGame playerCount customNames uTarget uStart)
       = generateTargetNumber uTarget
   \<and> currentPlayerIndex (initializeGame playerCount customNames uTarget uStart)
       = \<lfloor>uStart * real_of_int playerCount\<rfloor>
   \<and> diceResults (initializeGame playerCount customNames uTarget uStart) = None
   \<and> diceCalculationResult (initializeGame playerCount customNames uTarget uStart) = None
   \<and> winner (initializeGame playerCount customNames uTarget uStart) = None
   \<and> gameStarted (initializeGame playerCount customNames uTarget uStart)
   \<and> gamePhase (initializeGame playerCount customNames uTarget uStart) = Roll"
proof -
  have "map currentNumber (map (newPlayer customNames) [0..<nat playerCount])
          = replicate (nat playerCount) 5"
    by (simp add: map_replicate_const newPlayer_def INITIAL_PLAYER_NUMBER_def comp_def)
  then show ?thesis
    by (simp add: initializeGame_def Let_def pushPlayers_eq)
qed

subsection \<open>Well-formed states are kept\<close>

text \<open>
  A game of at least one player starts well formed, and every call that returns keeps the
  state well formed; so every state of a session is one to which
  \<open>applyFinalMove_effect\<close> applies.
\<close>

lemma starting_index_range:
  assumes "1 \<le> n" and "0 \<le> u" and "u < 1"
  shows "0 \<le> \<lfloor>u * real_of_int n\<rfloor> \<and> \<lfloor>u * real_of_int n\<rfloor> < n"
proof -
  have n: "0 < real_of_int n" using assms(1) by simp
  have "0 \<le> u * real_of_int n" using assms(2) n by simp
  then have a: "0 \<le> \<lfloor>u * real_of_int n\<rfloor>" by simp
  have "u * real_of_int n < 1 * real_of_int n"
    using assms(3) n by (rule mult_strict_right_mono)
  then have "u * real_of_int n < real_of_int n" by simp
  then have b: "\<lfloor>u * real_of_int n\<rfloor> < n" by (simp add: floor_less_iff)
  from a b show ?thesis by simp
qed

lemma distinct_new_ids: "distinct (map id_player (map (newPlayer customNames) [0..<n]))"
  by (simp add: distinct_map inj_on_def newPlayer_def)

lemma initializeGame_wellFormed:
  assumes "1 \<le> playerCount" and "0 \<le> uStart" and "uStart < 1"
  shows "wellFormed (initializeGame playerCount customNames uTarget uStart)"
proof -
  let ?g = "initializeGame playerCount customNames uTarget uStart"
  have p: "players ?g = map (newPlayer customNames) [0..<nat playerCount]"
    by (simp add: initializeGame_def Let_def pushPlayers_eq)
  have c: "currentPlayerIndex ?g = \<lfloor>uStart * real_of_int playerCount\<rfloor>"
    by (simp add: initializeGame_def Let_def)
  have l: "int (length (players ?g)) = playerCount"
    using assms(1) by (simp add: p)
  have d: "distinct (map id_player (players ?g))"
    unfolding p by (rule distinct_new_ids)
  from starting_index_range [OF assms] d show ?thesis
    unfolding wellFormed_def c l by simp
qed

lemma map_id_player_update:
  "map id_player
     (map (\<lambda>player. if id_player player = k then player \<lparr> currentNumber := m \<rparr> else player) ps)
   = map id_player ps"
  by (induction ps) simp_all

lemma applyFinalMove_ids_index:
  assumes "applyFinalMove st op = Inr st'"
  shows "map id_player (players st') = map id_player (players st)
         \<and> (currentPlayerIndex st' = currentPlayerIndex st
            \<or> currentPlayerIndex st'
                = (currentPlayerIndex st + 1) smod int (length (players st)))
         \<and> 0 \<le> currentPlayerIndex st
         \<and> currentPlayerIndex st < int (length (players st))"
  using assms
  by (auto simp: applyFinalMove_def at_index_def Let_def map_id_player_update
           simp del: map_map
           split: option.splits sum.splits if_splits)

lemma applyFinalMove_wellFormed:
  assumes wf: "wellFormed st" and ok: "applyFinalMove st op = Inr st'"
  shows "wellFormed st'"
proof -
  let ?n = "int (length (players st))"
  from applyFinalMove_ids_index [OF ok] have
    p: "map id_player (players st') = map id_player (players st)"
    and c: "currentPlayerIndex st' = currentPlayerIndex st
            \<or> currentPlayerIndex st' = (currentPlayerIndex st + 1) smod ?n"
    and lo: "0 \<le> currentPlayerIndex st" and hi: "currentPlayerIndex st < ?n"
    by simp_all
  from wf have ids: "distinct (map id_player (players st))"
    by (simp add: wellFormed_def)
  have pos: "0 < ?n" using lo hi by linarith
  have next_lo: "0 \<le> (currentPlayerIndex st + 1) smod ?n"
    and next_hi: "(currentPlayerIndex st + 1) smod ?n < ?n"
    using pos by (simp_all add: smod_next_index [OF lo hi])
  have "length (map id_player (players st')) = length (map id_player (players st))"
    by (simp only: p)
  then have len: "int (length (players st')) = ?n" by simp
  have d: "distinct (map id_player (players st'))"
    unfolding p by (rule ids)
  from c lo hi next_lo next_hi have "0 \<le> currentPlayerIndex st' \<and> currentPlayerIndex st' < ?n"
    by auto
  with len d show ?thesis by (simp add: wellFormed_def)
qed

lemma call_wellFormed:
  assumes "wellFormed st" and "call st c = Inr st'"
  shows "wellFormed st'"
proof (cases c)
  case (CallRollDice u1 u2)
  with assms show ?thesis by (auto simp: rollDiceForGame_def wellFormed_def)
next
  case (CallDiceOperation op)
  with assms show ?thesis
    by (auto simp: applyDiceOperation_def wellFormed_def split: option.splits sum.splits)
next
  case (CallFinalMove op)
  with assms show ?thesis by (auto intro: applyFinalMove_wellFormed)
qed

lemma session_wellFormed: "wellFormed st \<Longrightarrow> wellFormed (session st cs)"
proof (induction cs arbitrary: st)
  case Nil
  then show ?case by simp
next
  case (Cons c cs)
  show ?case
  proof (cases "call st c")
    case (Inl e)
    with Cons show ?thesis by simp
  next
    case (Inr st')
    with Cons.prems have "wellFormed st'" by (auto intro: call_wellFormed)
    with Inr Cons.IH show ?thesis by simp
  qed
qed

end
